theory Spec2Isabelle
  imports Complex_Main "HOL-Library.Char_ord" "HOL-Library.List_Lexorder"
begin

section \<open>Sales forecast dashboard: scenario adjustment and KPIs\<close>

text \<open>
  The dashboard pages are flat Streamlit scripts (\<^verbatim>\<open>dashboard/mainpage.py\<close>,
  \<^verbatim>\<open>dashboard/comparison.py\<close>). This theory embeds the part of them that computes:
  loading the pickled state, choosing the forecast table for the selected category,
  the growth adjustment, the six-month KPI and the best model by MAE.

  Python floats are modelled by \<^typ>\<open>real\<close>: arithmetic is exact, there is no NaN and no
  rounding. Timestamps are integers (only their order and identity matter).
\<close>

subsection \<open>Exceptions\<close>

datatype exn =
    FileNotFoundError
  | KeyError string
  | ValueError string
  | TypeError string
  | OtherException string

text \<open>
  \<^verbatim>\<open>str(e)\<close>, as interpolated by \<^verbatim>\<open>f"... {e}"\<close>; a \<^verbatim>\<open>KeyError\<close> prints the
  \<^verbatim>\<open>repr\<close> of its key, in single quotes. For \<^verbatim>\<open>FileNotFoundError\<close> the path that
  Python appends is left out; the pages never show this text.
\<close>

fun str_exn :: "exn \<Rightarrow> string" where
  "str_exn FileNotFoundError = ''[Errno 2] No such file or directory''"
| "str_exn (KeyError k) = [CHR 0x27] @ k @ [CHR 0x27]"
| "str_exn (ValueError m) = m"
| "str_exn (TypeError m) = m"
| "str_exn (OtherException m) = m"

subsection \<open>Tables\<close>

type_synonym timestamp = int

text \<open>
  A forecast DataFrame, column by column. \<open>ds\<close>, \<open>yhat\<close>, \<open>yhat_lower\<close> and
  \<open>yhat_upper\<close> are the columns the model's forecast always has. \<open>Category\<close> is present
  in the per-category table only, and the three \<open>_adj\<close> columns exist once
  \<^verbatim>\<open>mainpage.py\<close> has assigned them: an absent column is \<open>None\<close>. Columns the pages never
  read are left out.
\<close>

record frame =
  ds :: "timestamp list"
  Category :: "string list option"
  yhat :: "real list"
  yhat_lower :: "real list"
  yhat_upper :: "real list"
  yhat_adj :: "real list option"
  yhat_lower_adj :: "real list option"
  yhat_upper_adj :: "real list option"

text \<open>Every column of a DataFrame has one entry per row.\<close>

definition column_ok :: "nat \<Rightarrow> 'a list option \<Rightarrow> bool" where
  "column_ok n c = (case c of None \<Rightarrow> True | Some xs \<Rightarrow> length xs = n)"

definition wf_frame :: "frame \<Rightarrow> bool" where
  "wf_frame f =
     (let n = length (ds f) in
      column_ok n (Category f) \<and> length (yhat f) = n \<and> length (yhat_lower f) = n \<and>
      length (yhat_upper f) = n \<and> column_ok n (yhat_adj f) \<and>
      column_ok n (yhat_lower_adj f) \<and> column_ok n (yhat_upper_adj f))"

text \<open>\<^verbatim>\<open>monthly_sales\<close>: the historical monthly totals.\<close>

record sales =
  Order_Date :: "timestamp list"
  Sales :: "real list"

text \<open>\<^verbatim>\<open>errors\<close>: one row per model, indexed by the model's name, in insertion order.\<close>

record metrics =
  MAE :: real
  MSE :: real
  MAPE :: real
  RMSE :: real

type_synonym error_table = "(string \<times> metrics) list"

text \<open>\<^verbatim>\<open>baseline_forecasts\<close>: the test period with the three baseline forecasts.\<close>

record baseline =
  test_dates :: "timestamp list"
  test_sales :: "real list"
  naive_forecast :: "real list"
  ma_forecast :: "real list"
  seasonal_naive_forecast :: "real list"

text \<open>The unpickled dictionary; a key that is missing is \<open>None\<close>.\<close>

record state_holder =
  monthly_sales :: "sales option"
  baseline_forecasts :: "baseline option"
  forecast :: "frame option"
  category_forecast_df :: "frame option"
  errors :: "error_table option"

subsection \<open>DataFrame operations\<close>

text \<open>\<^verbatim>\<open>df[col]\<close> on a column that may be absent.\<close>

definition getcol :: "string \<Rightarrow> 'a list option \<Rightarrow> exn + 'a list" where
  "getcol name c = (case c of None \<Rightarrow> Inl (KeyError name) | Some xs \<Rightarrow> Inr xs)"

text \<open>\<^verbatim>\<open>df[mask]\<close>: the rows at which the boolean mask is true, in order.\<close>

definition select_mask :: "bool list \<Rightarrow> 'a list \<Rightarrow> 'a list" where
  "select_mask keep xs = map snd (filter fst (zip keep xs))"

definition filter_rows :: "bool list \<Rightarrow> frame \<Rightarrow> frame" where
  "filter_rows keep f =
     \<lparr> ds = select_mask keep (ds f),
       Category = map_option (select_mask keep) (Category f),
       yhat = select_mask keep (yhat f),
       yhat_lower = select_mask keep (yhat_lower f),
       yhat_upper = select_mask keep (yhat_upper f),
       yhat_adj = map_option (select_mask keep) (yhat_adj f),
       yhat_lower_adj = map_option (select_mask keep) (yhat_lower_adj f),
       yhat_upper_adj = map_option (select_mask keep) (yhat_upper_adj f) \<rparr>"

text \<open>\<^verbatim>\<open>df.tail(n)\<close> for \<open>n \<ge> 0\<close>: the last \<open>n\<close> rows, all of them when there are fewer.\<close>

definition tail_list :: "nat \<Rightarrow> 'a list \<Rightarrow> 'a list" where
  "tail_list n xs = drop (length xs - n) xs"

definition tail :: "nat \<Rightarrow> frame \<Rightarrow> frame" where
  "tail n f =
     \<lparr> ds = tail_list n (ds f),
       Category = map_option (tail_list n) (Category f),
       yhat = tail_list n (yhat f),
       yhat_lower = tail_list n (yhat_lower f),
       yhat_upper = tail_list n (yhat_upper f),
       yhat_adj = map_option (tail_list n) (yhat_adj f),
       yhat_lower_adj = map_option (tail_list n) (yhat_lower_adj f),
       yhat_upper_adj = map_option (tail_list n) (yhat_upper_adj f) \<rparr>"

text \<open>\<^verbatim>\<open>series.unique().tolist()\<close>: the distinct values in order of first appearance.\<close>

definition unique :: "'a list \<Rightarrow> 'a list" where
  "unique xs = rev (remdups (rev xs))"

subsection \<open>The forecast source (mainpage.py, lines 66 and 74 to 83)\<close>

text \<open>The options of the category select box.\<close>

definition categories :: "frame \<Rightarrow> exn + string list" where
  "categories category_forecast =
     (case getcol ''Category'' (Category category_forecast) of
        Inl e \<Rightarrow> Inl e
      | Inr cats \<Rightarrow> Inr (''All Categories'' # sort (unique cats)))"

text \<open>
  The value of \<^verbatim>\<open>forecast\<close> after the \<^verbatim>\<open>if\<close>/\<^verbatim>\<open>else\<close>: a copy of the aggregate table,
  or a copy of the rows of the per-category table whose \<open>Category\<close> equals the selection.
\<close>

definition selectSeries :: "string \<Rightarrow> frame \<Rightarrow> frame \<Rightarrow> exn + frame" where
  "selectSeries selected_category forecast_all category_forecast =
     (if selected_category = ''All Categories'' then Inr forecast_all
      else
        (case getcol ''Category'' (Category category_forecast) of
           Inl e \<Rightarrow> Inl e
         | Inr cats \<Rightarrow>
             Inr (filter_rows (map (\<lambda>c. c = selected_category) cats) category_forecast)))"

subsection \<open>The growth scenario (mainpage.py, lines 86 to 103)\<close>

definition scenario_map :: "(string \<times> real) list" where
  "scenario_map =
     [(''Conservative (-10%)'', - 0.10),
      (''Baseline (0%)'', 0.00),
      (''Optimistic (+10%)'', 0.10),
      (''Aggressive (+20%)'', 0.20)]"

definition growth_of :: "string \<Rightarrow> exn + real" where
  "growth_of selected_scenario =
     (case map_of scenario_map selected_scenario of
        None \<Rightarrow> Inl (KeyError selected_scenario)
      | Some g \<Rightarrow> Inr g)"

text \<open>The three column assignments of lines 101 to 103.\<close>

definition applyGrowth :: "real \<Rightarrow> frame \<Rightarrow> frame" where
  "applyGrowth growth_adjustment f =
     f\<lparr> yhat_adj := Some (map (\<lambda>y. y * (1 + growth_adjustment)) (yhat f)),
        yhat_lower_adj := Some (map (\<lambda>y. y * (1 + growth_adjustment)) (yhat_lower f)),
        yhat_upper_adj := Some (map (\<lambda>y. y * (1 + growth_adjustment)) (yhat_upper f)) \<rparr>"

subsection \<open>The KPI summary (mainpage.py, lines 106 to 109)\<close>

definition tailWindow :: "frame \<Rightarrow> nat \<Rightarrow> frame" where
  "tailWindow f n = tail n f"

text \<open>\<^verbatim>\<open>future_6m["yhat_adj"].sum()\<close>.\<close>

definition summarize :: "frame \<Rightarrow> exn + real" where
  "summarize f =
     (case getcol ''yhat_adj'' (yhat_adj f) of
        Inl e \<Rightarrow> Inl e
      | Inr ys \<Rightarrow> Inr (sum_list ys))"

text \<open>
  \<^verbatim>\<open>series.idxmin()\<close>: the label of the first row that holds the smallest value; an empty
  series raises \<^verbatim>\<open>ValueError\<close>. The scan keeps the earlier row unless a later one is
  strictly smaller.
\<close>

fun first_min :: "string \<times> real \<Rightarrow> (string \<times> real) list \<Rightarrow> string \<times> real" where
  "first_min best [] = best"
| "first_min best (p # ps) = first_min (if snd p < snd best then p else best) ps"

definition idxmin :: "(string \<times> real) list \<Rightarrow> exn + string" where
  "idxmin s =
     (case s of
        [] \<Rightarrow> Inl (ValueError ''attempt to get argmin of an empty sequence'')
      | p # ps \<Rightarrow> Inr (fst (first_min p ps)))"

text \<open>
  \<^verbatim>\<open>errors.loc[label, column]\<close>: a scalar when exactly one row carries the label, a
  Series of all matches when several do, \<^verbatim>\<open>KeyError\<close> when none does.
\<close>

datatype loc_result = Scalar real | Series "real list"

definition loc :: "error_table \<Rightarrow> string \<Rightarrow> (metrics \<Rightarrow> real) \<Rightarrow> exn + loc_result" where
  "loc t label column =
     (case filter (\<lambda>row. fst row = label) t of
        [] \<Rightarrow> Inl (KeyError label)
      | [row] \<Rightarrow> Inr (Scalar (column (snd row)))
      | rows \<Rightarrow> Inr (Series (map (\<lambda>row. column (snd row)) rows)))"

text \<open>Lines 108 and 109 (and lines 61 and 62 of comparison.py).\<close>

definition bestModel :: "error_table \<Rightarrow> exn + string \<times> loc_result" where
  "bestModel t =
     (case idxmin (map (\<lambda>row. (fst row, MAE (snd row))) t) of
        Inl e \<Rightarrow> Inl e
      | Inr best_model \<Rightarrow>
          (case loc t best_model MAE of
             Inl e \<Rightarrow> Inl e
           | Inr best_mae \<Rightarrow> Inr (best_model, best_mae)))"

subsection \<open>Objects and references\<close>

text \<open>
  DataFrames are mutable objects and Python variables hold references to them. The heap
  is the list of the frames allocated so far, a reference is a position in it.
  \<^verbatim>\<open>.copy()\<close>, boolean indexing and \<^verbatim>\<open>.tail\<close> allocate a new frame; a column
  assignment \<^verbatim>\<open>df[c] = v\<close> replaces the frame stored at the reference of \<^verbatim>\<open>df\<close>.
\<close>

type_synonym ref = nat
type_synonym heap = "frame list"

definition alloc :: "frame \<Rightarrow> heap \<Rightarrow> ref \<times> heap" where
  "alloc f h = (length h, h @ [f])"

text \<open>Lines 74 to 83 on the heap: \<^verbatim>\<open>forecast\<close> refers to a fresh copy.\<close>

definition choose_forecast :: "string \<Rightarrow> ref \<Rightarrow> ref \<Rightarrow> heap \<Rightarrow> exn + ref \<times> heap" where
  "choose_forecast selected_category forecast_all category_forecast h =
     (case selectSeries selected_category (h ! forecast_all) (h ! category_forecast) of
        Inl e \<Rightarrow> Inl e
      | Inr f \<Rightarrow> Inr (alloc f h))"

text \<open>Lines 101 to 103 on the heap: the columns are added to the frame \<^verbatim>\<open>forecast\<close> refers to.\<close>

definition assign_adjusted :: "real \<Rightarrow> ref \<Rightarrow> heap \<Rightarrow> heap" where
  "assign_adjusted growth_adjustment forecast_ref h =
     h[forecast_ref := applyGrowth growth_adjustment (h ! forecast_ref)]"

subsection \<open>What a page shows\<close>

text \<open>
  A run of a page script yields the Streamlit elements it emitted, in order. Numbers are
  kept as numbers: the format strings of the metrics (\<^verbatim>\<open>:,.0f\<close>, \<^verbatim>\<open>:.2f\<close>) are
  presentation and are not modelled, nor is the content of a download.
\<close>

datatype metric_value =
    Text string
  | Number real
  | Model_mae string real

datatype trace = Trace "string option" "timestamp list" "real list"

record forecast_table =
  Month :: "timestamp list"
  Forecast :: "real list"
  Lower_Bound :: "real list"
  Upper_Bound :: "real list"

datatype element =
    St_error string
  | St_success string
  | St_info string
  | St_warning string
  | St_toast string
  | St_page_config string
  | St_sidebar_header string
  | St_title string
  | St_subheader string
  | St_selectbox string "string list"
  | St_metric string metric_value
  | St_divider
  | St_plotly_chart "trace list"
  | St_download_button string string
  | St_dataframe forecast_table

text \<open>
  The session state at the start of a run: the values stored under the keys of the two
  select boxes and, for each download button, whether it was clicked
  (\<^verbatim>\<open>st.session_state.scenerio\<close>, \<^verbatim>\<open>st.session_state.forecast\<close>).
\<close>

record session =
  selected_category :: string
  selected_scenario :: string
  scenerio_clicked :: bool
  forecast_clicked :: bool

text \<open>
  \<^verbatim>\<open>st.selectbox(label, options, index, key)\<close>: the value of the widget is the value
  stored under its key when that is one of the options, and the option at \<open>index\<close>
  otherwise (as on the first run, when nothing is stored). Streamlit writes this value
  back under the key, so every later read of \<^verbatim>\<open>st.session_state\<close> sees one of the
  options. Both select boxes of the page have a non-empty option list and an index
  within it.
\<close>

definition selectbox :: "string list \<Rightarrow> nat \<Rightarrow> string \<Rightarrow> string" where
  "selectbox options index stored = (if stored \<in> set options then stored else options ! index)"

subsection \<open>Loading the state (mainpage.py, lines 36 to 51)\<close>

text \<open>
  The argument \<open>file\<close> is the outcome of \<^verbatim>\<open>load_state(state_path)\<close>: the unpickled
  dictionary, \<^verbatim>\<open>FileNotFoundError\<close> when the file is absent, another exception when
  it cannot be read or unpickled. The four lookups raise \<^verbatim>\<open>KeyError\<close> on a missing key.
\<close>

definition load_mainpage ::
  "exn + state_holder \<Rightarrow> exn + sales \<times> frame \<times> frame \<times> error_table" where
  "load_mainpage file =
     (case file of
        Inl e \<Rightarrow> Inl e
      | Inr sh \<Rightarrow>
          (case monthly_sales sh of
             None \<Rightarrow> Inl (KeyError ''monthly_sales'')
           | Some ms \<Rightarrow>
          (case forecast sh of
             None \<Rightarrow> Inl (KeyError ''forecast'')
           | Some fa \<Rightarrow>
          (case category_forecast_df sh of
             None \<Rightarrow> Inl (KeyError ''category_forecast_df'')
           | Some cf \<Rightarrow>
          (case errors sh of
             None \<Rightarrow> Inl (KeyError ''errors'')
           | Some er \<Rightarrow> Inr (ms, fa, cf, er))))))"

text \<open>The two \<^verbatim>\<open>except\<close> clauses: what \<^verbatim>\<open>st.error\<close> shows before \<^verbatim>\<open>st.stop()\<close>.\<close>

definition setup_instruction :: string where
  "setup_instruction = ''Required files are not found. Please run the training notebook first.''"

definition failure_message :: "exn \<Rightarrow> string" where
  "failure_message e =
     (case e of
        FileNotFoundError \<Rightarrow> setup_instruction
      | _ \<Rightarrow> ''Errors encountered while starting project: '' @ str_exn e)"

subsection \<open>The main page (mainpage.py, lines 53 to 207)\<close>

definition page_title :: string where
  "page_title = ''Sales Forecast Dashboard''"

text \<open>\<^verbatim>\<open>df[["yhat_adj", "yhat_lower_adj", "yhat_upper_adj"]]\<close>, read column by column.\<close>

definition adjusted_columns :: "frame \<Rightarrow> exn + real list \<times> real list \<times> real list" where
  "adjusted_columns f =
     (case getcol ''yhat_adj'' (yhat_adj f) of
        Inl e \<Rightarrow> Inl e
      | Inr a \<Rightarrow>
     (case getcol ''yhat_lower_adj'' (yhat_lower_adj f) of
        Inl e \<Rightarrow> Inl e
      | Inr lo \<Rightarrow>
     (case getcol ''yhat_upper_adj'' (yhat_upper_adj f) of
        Inl e \<Rightarrow> Inl e
      | Inr up \<Rightarrow> Inr (a, lo, up))))"

text \<open>Lines 200 to 207.\<close>

definition business_insight :: "real \<Rightarrow> element" where
  "business_insight growth_adjustment =
     (if growth_adjustment \<ge> 0.15 then
        St_success ''Aggressive growth scenario selected. Plan for higher inventory and operational capacity.''
      else if growth_adjustment > 0 then
        St_info ''Moderate growth expected. Gradual scaling recommended.''
      else if growth_adjustment < 0 then
        St_warning ''Conservative scenario selected. Focus on cost control and promotions.''
      else
        St_info ''Baseline scenario selected. Maintain current strategy.'')"

text \<open>\<^verbatim>\<open>selected_category.replace(' ', '_')\<close>.\<close>

definition replace_spaces :: "string \<Rightarrow> string" where
  "replace_spaces s = map (\<lambda>c. if c = CHR '' '' then CHR ''_'' else c) s"

text \<open>
  Lines 118 to 207, once the KPIs are known: the chart, the table of the next six
  months and the insight. \<open>actuals\<close> is the renamed \<^verbatim>\<open>monthly_sales\<close>, or \<open>None\<close>
  for a single category.
\<close>

definition render_forecast ::
  "session \<Rightarrow> real \<Rightarrow> sales option \<Rightarrow> frame \<Rightarrow> frame \<Rightarrow> element list \<times> exn option" where
  "render_forecast ss growth_adjustment actuals forecast_frame future_6m =
     (let head = [St_divider, St_subheader ''Scenario-Based Forecast''] in
      case adjusted_columns forecast_frame of
        Inl e \<Rightarrow> (head, Some e)
      | Inr (a, lo, up) \<Rightarrow>
          (let chart =
                 head @
                 [St_plotly_chart
                    ((case actuals of
                        None \<Rightarrow> []
                      | Some ms \<Rightarrow> [Trace (Some ''Actual Sales'') (Order_Date ms) (Sales ms)]) @
                     [Trace (Some (''Forecast ('' @ selected_scenario ss @ '')'')) (ds forecast_frame) a,
                      Trace None (ds forecast_frame) lo,
                      Trace (Some ''Confidence Interval'') (ds forecast_frame) up]),
                  St_download_button ''Download interactive graph (HTML)''
                    ''scenerio_based_forecast.html''] @
                 (if scenerio_clicked ss then [St_toast ''Download Started''] else []) @
                 [St_subheader ''Forecast Table (Next 6 Months)'']
           in
           case adjusted_columns future_6m of
             Inl e \<Rightarrow> (chart, Some e)
           | Inr (a6, lo6, up6) \<Rightarrow>
               (chart @
                [St_dataframe
                   \<lparr> Month = ds future_6m, Forecast = a6, Lower_Bound = lo6, Upper_Bound = up6 \<rparr>,
                 St_download_button ''Download Forecast''
                   (''forecast_'' @ replace_spaces (selected_category ss) @ ''.csv'')] @
                (if forecast_clicked ss then [St_toast ''Download Started''] else []) @
                [St_subheader ''Business Insight'', business_insight growth_adjustment],
                None)))"

text \<open>
  The script after a successful load. The result is the elements shown, the exception
  that ended the run if one did, and the heap at the end. \<open>forecast_all\<close> and
  \<open>category_forecast\<close> are the references of the two loaded forecast tables. \<open>ss\<close> is
  the session state at the start; \<open>ss1\<close> and \<open>ss2\<close> are the session state after the
  category and the scenario select box, which is what the rest of the script reads.
\<close>

definition mainpage_body ::
  "sales \<Rightarrow> ref \<Rightarrow> ref \<Rightarrow> error_table \<Rightarrow> session \<Rightarrow> heap \<Rightarrow> element list \<times> exn option \<times> heap" where
  "mainpage_body monthly_sales_df forecast_all category_forecast errors_df ss h0 =
     (let out1 = [St_page_config page_title, St_sidebar_header page_title, St_title page_title,
                  St_subheader ''Category Selection'']
      in
      case categories (h0 ! category_forecast) of
        Inl e \<Rightarrow> (out1, Some e, h0)
      | Inr cats \<Rightarrow>
     (let out2 = out1 @ [St_selectbox ''Select product category'' cats];
          ss1 = ss\<lparr> selected_category := selectbox cats 0 (selected_category ss) \<rparr>
      in
      case choose_forecast (selected_category ss1) forecast_all category_forecast h0 of
        Inl e \<Rightarrow> (out2, Some e, h0)
      | Inr (forecast_ref, h1) \<Rightarrow>
     (let actuals = (if selected_category ss1 = ''All Categories'' then Some monthly_sales_df else None);
          out3 = out2 @ [St_subheader ''What-If Growth Scenario'',
                         St_selectbox ''Select expected growth scenario'' (map fst scenario_map)];
          ss2 = ss1\<lparr> selected_scenario :=
                       selectbox (map fst scenario_map) 1 (selected_scenario ss1) \<rparr>
      in
      case growth_of (selected_scenario ss2) of
        Inl e \<Rightarrow> (out3, Some e, h1)
      | Inr growth_adjustment \<Rightarrow>
     (let h2 = assign_adjusted growth_adjustment forecast_ref h1;
          (future_6m, h3) = alloc (tailWindow (h2 ! forecast_ref) 6) h2
      in
      case summarize (h3 ! future_6m) of
        Inl e \<Rightarrow> (out3, Some e, h3)
      | Inr forecast_6m_total \<Rightarrow>
     (case bestModel errors_df of
        Inl e \<Rightarrow> (out3, Some e, h3)
      | Inr (best_model, best_mae) \<Rightarrow>
     (let out4 = out3 @ [St_metric ''Category'' (Text (selected_category ss2)),
                         St_metric ''Next 6 Months Forecast'' (Number forecast_6m_total),
                         St_metric ''Growth Assumption'' (Number (growth_adjustment * 100))]
      in
      case best_mae of
        Series vs \<Rightarrow> (out4, Some (TypeError ''unsupported format string passed to Series.__format__''), h3)
      | Scalar mae \<Rightarrow>
          (let (shown, raised) =
                 render_forecast ss2 growth_adjustment actuals (h3 ! forecast_ref) (h3 ! future_6m)
           in (out4 @ [St_metric ''Model Used'' (Model_mae best_model mae)] @ shown, raised, h3))))))))"

text \<open>
  A whole run. The loaded forecast tables are the first two objects of the heap. On a
  failed load the page shows one error and stops.
\<close>

definition mainpage :: "exn + state_holder \<Rightarrow> session \<Rightarrow> element list \<times> exn option \<times> heap" where
  "mainpage file ss =
     (case load_mainpage file of
        Inl e \<Rightarrow> ([St_error (failure_message e)], None, [])
      | Inr (ms, fa, cf, er) \<Rightarrow> mainpage_body ms 0 1 er ss [fa, cf])"

subsection \<open>Loading the state (comparison.py, lines 36 to 58)\<close>

text \<open>\<^verbatim>\<open>series.mean()\<close>; the mean of an empty series is NaN, here \<open>None\<close>.\<close>

definition mean :: "real list \<Rightarrow> real option" where
  "mean xs = (if xs = [] then None else Some (sum_list xs / real (length xs)))"

record comparison_values =
  baseline_test :: baseline
  errors_table :: error_table
  future_forecast :: frame
  forecast_6m :: real
  avg_sales :: "real option"
  prophet_mae :: loc_result
  prophet_mape :: loc_result

definition load_comparison :: "exn + state_holder \<Rightarrow> exn + comparison_values" where
  "load_comparison file =
     (case file of
        Inl e \<Rightarrow> Inl e
      | Inr sh \<Rightarrow>
          (case baseline_forecasts sh of
             None \<Rightarrow> Inl (KeyError ''baseline_forecasts'')
           | Some bt \<Rightarrow>
          (case errors sh of
             None \<Rightarrow> Inl (KeyError ''errors'')
           | Some et \<Rightarrow>
          (case forecast sh of
             None \<Rightarrow> Inl (KeyError ''forecast'')
           | Some fa \<Rightarrow>
          (case monthly_sales sh of
             None \<Rightarrow> Inl (KeyError ''monthly_sales'')
           | Some ms \<Rightarrow>
          (case loc et ''Prophet'' MAE of
             Inl e \<Rightarrow> Inl e
           | Inr pmae \<Rightarrow>
          (case loc et ''Prophet'' MAPE of
             Inl e \<Rightarrow> Inl e
           | Inr pmape \<Rightarrow>
               Inr \<lparr> baseline_test = bt, errors_table = et, future_forecast = tail 6 fa,
                     forecast_6m = sum_list (yhat (tail 6 fa)), avg_sales = mean (Sales ms),
                     prophet_mae = pmae, prophet_mape = pmape \<rparr>)))))))"

text \<open>
  The \<^verbatim>\<open>try\<close> block with its handlers: the elements shown, and the loaded values
  with which the script goes on, \<open>None\<close> when \<^verbatim>\<open>st.stop()\<close> has ended the run.
\<close>

definition comparison_start :: "exn + state_holder \<Rightarrow> element list \<times> comparison_values option" where
  "comparison_start file =
     (case load_comparison file of
        Inl e \<Rightarrow> ([St_error (failure_message e)], None)
      | Inr v \<Rightarrow> ([], Some v))"

subsection \<open>Auxiliary notions and sample data\<close>

text \<open>Position \<open>i\<close> holds the first minimum of the second components of \<open>xs\<close>.\<close>

definition is_first_min :: "(string \<times> real) list \<Rightarrow> nat \<Rightarrow> bool" where
  "is_first_min xs i \<longleftrightarrow>
     i < length xs \<and> (\<forall>j<length xs. snd (xs ! i) \<le> snd (xs ! j)) \<and>
     (\<forall>j<i. snd (xs ! i) < snd (xs ! j))"

text \<open>The elements that tell the user something: errors, notes, warnings and toasts.\<close>

definition is_message :: "element \<Rightarrow> bool" where
  "is_message x =
     (case x of
        St_error _ \<Rightarrow> True
      | St_success _ \<Rightarrow> True
      | St_info _ \<Rightarrow> True
      | St_warning _ \<Rightarrow> True
      | St_toast _ \<Rightarrow> True
      | _ \<Rightarrow> False)"

text \<open>
  A small state: twelve months of aggregate forecast whose last six point estimates are
  100, a per-category table with two rows for each of two categories, and the error table
  of the specification's example.
\<close>

definition demo_forecast :: frame where
  "demo_forecast =
     \<lparr> ds = [1, 2, 3, 4, 5, 6, 7, 8, 9, 10, 11, 12],
       Category = None,
       yhat = [80, 85, 90, 95, 90, 85, 100, 100, 100, 100, 100, 100],
       yhat_lower = [70, 75, 80, 85, 80, 75, 90, 90, 90, 90, 90, 90],
       yhat_upper = [90, 95, 100, 105, 100, 95, 110, 110, 110, 110, 110, 110],
       yhat_adj = None, yhat_lower_adj = None, yhat_upper_adj = None \<rparr>"

definition demo_category_forecast :: frame where
  "demo_category_forecast =
     \<lparr> ds = [1, 2, 1, 2],
       Category = Some [''Technology'', ''Technology'', ''Office Supplies'', ''Office Supplies''],
       yhat = [40, 50, 30, 20],
       yhat_lower = [35, 45, 25, 15],
       yhat_upper = [45, 55, 35, 25],
       yhat_adj = None, yhat_lower_adj = None, yhat_upper_adj = None \<rparr>"

definition demo_errors :: error_table where
  "demo_errors =
     [(''A'', \<lparr> MAE = 5.0, MSE = 30, MAPE = 0.2, RMSE = 5.5 \<rparr>),
      (''B'', \<lparr> MAE = 3.0, MSE = 10, MAPE = 0.1, RMSE = 3.2 \<rparr>),
      (''C'', \<lparr> MAE = 3.0, MSE = 12, MAPE = 0.1, RMSE = 3.5 \<rparr>)]"

definition demo_sales :: sales where
  "demo_sales = \<lparr> Order_Date = [- 1, 0], Sales = [70, 75] \<rparr>"

definition demo_state :: state_holder where
  "demo_state =
     \<lparr> monthly_sales = Some demo_sales,
       baseline_forecasts = None,
       forecast = Some demo_forecast,
       category_forecast_df = Some demo_category_forecast,
       errors = Some demo_errors \<rparr>"

text \<open>A session with the given selections and no download button clicked.\<close>

definition demo_session :: "string \<Rightarrow> string \<Rightarrow> session" where
  "demo_session category scenario =
     \<lparr> selected_category = category, selected_scenario = scenario,
       scenerio_clicked = False, forecast_clicked = False \<rparr>"

section \<open>Properties\<close>

subsection \<open>Facts about the table operations\<close>

lemma length_select_mask:
  "length keep = length xs \<Longrightarrow> length (select_mask keep xs) = length (filter (\<lambda>b. b) keep)"
  by (induction keep xs rule: list_induct2) (simp_all add: select_mask_def)

lemma select_mask_self:
  "select_mask (map (\<lambda>c. c = sel) cats) cats =
     replicate (length (filter (\<lambda>c. c = sel) cats)) sel"
  by (induction cats) (simp_all add: select_mask_def)

lemma wf_filter_rows:
  assumes "wf_frame f" and "length keep = length (ds f)"
  shows "wf_frame (filter_rows keep f) \<and>
         length (ds (filter_rows keep f)) = length (filter (\<lambda>b. b) keep)"
  using assms
  by (auto simp: wf_frame_def Let_def filter_rows_def column_ok_def length_select_mask
      split: option.splits)

lemma categories_options:
  "categories cat = Inr opts \<Longrightarrow>
     \<exists>cats. Category cat = Some cats \<and> opts = ''All Categories'' # sort (unique cats)"
  by (auto simp: categories_def getcol_def split: option.splits)

lemma set_unique: "set (unique xs) = set xs"
  by (simp add: unique_def)

lemma tail_list_map: "tail_list n (map f xs) = map f (tail_list n xs)"
  by (simp add: tail_list_def drop_map)

lemma tail_list_short: "length xs \<le> n \<Longrightarrow> tail_list n xs = xs"
  by (simp add: tail_list_def)

lemma growth_values: "growth_of s = Inr g \<Longrightarrow> g \<in> {- 0.10, 0, 0.10, 0.20}"
  by (auto simp: growth_of_def scenario_map_def split: if_splits)

lemma scenario_rates: "snd ` set scenario_map = {- 0.10, 0, 0.10, 0.20}"
  by (auto simp: scenario_map_def)

lemma wf_demo_forecast: "wf_frame demo_forecast"
  by (simp add: wf_frame_def demo_forecast_def column_ok_def)

lemma wf_demo_category_forecast: "wf_frame demo_category_forecast"
  by (simp add: wf_frame_def demo_category_forecast_def column_ok_def)

subsection \<open>Facts about the first minimum\<close>

lemma first_min_snoc:
  "first_min p (ps @ [q]) = (if snd q < snd (first_min p ps) then q else first_min p ps)"
  by (induction ps arbitrary: p) simp_all

lemma is_first_min_snoc_new:
  assumes "is_first_min xs i" and "snd q < snd (xs ! i)"
  shows "is_first_min (xs @ [q]) (length xs)"
proof -
  have "snd q < snd (xs ! j)" if "j < length xs" for j
    using assms that unfolding is_first_min_def by fastforce
  then show ?thesis
    by (auto simp: is_first_min_def nth_append less_Suc_eq intro: less_imp_le)
qed

lemma is_first_min_snoc_old:
  assumes "is_first_min xs i" and "\<not> snd q < snd (xs ! i)"
  shows "is_first_min (xs @ [q]) i"
  using assms by (auto simp: is_first_min_def nth_append less_Suc_eq)

lemma first_min_spec:
  "\<exists>i. is_first_min (p # ps) i \<and> first_min p ps = (p # ps) ! i"
proof (induction ps rule: rev_induct)
  case Nil
  show ?case by (intro exI[of _ 0]) (simp add: is_first_min_def)
next
  case (snoc q ps)
  define xs where "xs = p # ps"
  from snoc obtain i where i: "is_first_min xs i" "first_min p ps = xs ! i"
    unfolding xs_def by blast
  have app: "p # ps @ [q] = xs @ [q]" by (simp add: xs_def)
  have len: "i < length xs" using i(1) by (simp add: is_first_min_def)
  show ?case
  proof (cases "snd q < snd (xs ! i)")
    case True
    then have "first_min p (ps @ [q]) = (xs @ [q]) ! length xs"
      by (simp add: first_min_snoc i(2))
    with is_first_min_snoc_new[OF i(1) True] show ?thesis
      unfolding app by blast
  next
    case False
    then have "first_min p (ps @ [q]) = (xs @ [q]) ! i"
      using len by (simp add: first_min_snoc i(2) nth_append)
    with is_first_min_snoc_old[OF i(1) False] show ?thesis
      unfolding app by blast
  qed
qed

lemma filter_label_distinct:
  "distinct (map fst t) \<Longrightarrow> i < length t \<Longrightarrow>
     filter (\<lambda>row. fst row = fst (t ! i)) t = [t ! i]"
proof (induction t arbitrary: i)
  case Nil
  then show ?case by simp
next
  case (Cons r t)
  from Cons.prems(1) have fresh: "fst r \<notin> fst ` set t" by simp
  show ?case
  proof (cases i)
    case 0
    from fresh have "\<forall>row\<in>set t. fst row \<noteq> fst r" by (metis imageI)
    then have "filter (\<lambda>row. fst row = fst r) t = []"
      by (simp add: filter_empty_conv)
    with 0 show ?thesis by simp
  next
    case (Suc k)
    then have k: "k < length t" using Cons.prems(2) by simp
    then have "fst (t ! k) \<in> fst ` set t" by (metis imageI nth_mem)
    with fresh have "fst r \<noteq> fst (t ! k)" by metis
    with Suc k Cons show ?thesis by simp
  qed
qed

subsection \<open>Facts about a run of the main page\<close>

lemma mainpage_body_heap:
  "mainpage_body ms fa cf er ss h0 = (out, raised, h) \<Longrightarrow> take (length h0) h = h0"
  by (auto simp: mainpage_body_def choose_forecast_def alloc_def assign_adjusted_def Let_def
      split: sum.splits prod.splits loc_result.splits)

lemma is_message_simps:
  "is_message (St_error m)" "is_message (St_success m)" "is_message (St_info m)"
  "is_message (St_warning m)" "is_message (St_toast m)"
  "\<not> is_message (St_page_config m)" "\<not> is_message (St_sidebar_header m)"
  "\<not> is_message (St_title m)" "\<not> is_message (St_subheader m)"
  "\<not> is_message (St_selectbox m opts)" "\<not> is_message (St_metric m v)"
  "\<not> is_message St_divider" "\<not> is_message (St_plotly_chart traces)"
  "\<not> is_message (St_download_button m file_name)" "\<not> is_message (St_dataframe table)"
  by (simp_all add: is_message_def)

lemma is_message_insight: "is_message (business_insight g)"
  by (simp add: business_insight_def is_message_simps)

lemma mainpage_body_messages:
  assumes "mainpage_body ms fa cf er ss h0 = (out, None, h)"
  shows "\<exists>g. growth_of (selectbox (map fst scenario_map) 1 (selected_scenario ss)) = Inr g \<and>
           filter is_message out =
             (if scenerio_clicked ss then [St_toast ''Download Started''] else []) @
             (if forecast_clicked ss then [St_toast ''Download Started''] else []) @
             [business_insight g]"
  using assms
  by (auto simp: mainpage_body_def render_forecast_def Let_def is_message_insight is_message_simps
      split: sum.splits prod.splits loc_result.splits option.splits)

text \<open>Unfolding a run on concrete data.\<close>

lemmas run_defs =
  mainpage_def load_mainpage_def mainpage_body_def selectbox_def categories_def getcol_def
  choose_forecast_def selectSeries_def filter_rows_def select_mask_def alloc_def
  growth_of_def scenario_map_def assign_adjusted_def applyGrowth_def tailWindow_def
  tail_def tail_list_def summarize_def bestModel_def idxmin_def loc_def
  render_forecast_def adjusted_columns_def business_insight_def is_message_def
  unique_def page_title_def replace_spaces_def Let_def

lemmas demo_defs =
  demo_state_def demo_sales_def demo_forecast_def demo_category_forecast_def
  demo_errors_def demo_session_def

subsection \<open>Selecting the series\<close>

text \<open>
  Claim C8. Selecting \<open>''All Categories''\<close> yields the aggregate table itself, whatever
  the per-category table holds: no row is filtered. On the heap, \<^verbatim>\<open>forecast\<close> then
  refers to a new object that equals the aggregate table.
\<close>

theorem selectSeries_all_categories:
  "selectSeries ''All Categories'' agg cat = Inr agg \<and>
   choose_forecast ''All Categories'' forecast_all category_forecast h =
     Inr (length h, h @ [h ! forecast_all])"
  by (simp add: selectSeries_def choose_forecast_def alloc_def)




text \<open>
  Claim C9. The options of the category select box, \<open>''All Categories''\<close> apart, are the
  values of the \<open>Category\<close> column. So for a well-formed per-category table and any
  option other than \<open>''All Categories''\<close>, the selection is a table with at least one row,
  all of whose rows carry the selected label.
\<close>

theorem selectable_category_nonempty:
  assumes "wf_frame cat" and "categories cat = Inr opts" and "sel \<in> set opts"
    and "sel \<noteq> ''All Categories''"
  shows "\<exists>cats f. Category cat = Some cats \<and> sel \<in> set cats \<and>
           selectSeries sel agg cat = Inr f \<and> ds f \<noteq> [] \<and> wf_frame f \<and>
           Category f = Some (replicate (length (ds f)) sel)"
proof -
  from categories_options[OF assms(2)] obtain cats
    where cats: "Category cat = Some cats" "opts = ''All Categories'' # sort (unique cats)"
    by blast
  have mem: "sel \<in> set cats" using assms(3,4) cats(2) by (simp add: set_unique)
  define keep where "keep = map (\<lambda>c. c = sel) cats"
  define f where "f = filter_rows keep cat"
  have len: "length keep = length (ds cat)"
    using assms(1) cats(1) by (simp add: keep_def wf_frame_def Let_def column_ok_def)
  have sel_eq: "selectSeries sel agg cat = Inr f"
    using assms(4) cats(1) by (simp add: selectSeries_def getcol_def f_def keep_def)
  have wf: "wf_frame f" and n: "length (ds f) = length (filter (\<lambda>c. c = sel) cats)"
    using wf_filter_rows[OF assms(1) len]
    by (simp_all add: f_def keep_def filter_map comp_def)
  have "filter (\<lambda>c. c = sel) cats \<noteq> []" using mem by (simp add: filter_empty_conv)
  then have ne: "ds f \<noteq> []" using n by auto
  have "Category f = Some (replicate (length (filter (\<lambda>c. c = sel) cats)) sel)"
    using cats(1) by (simp add: f_def filter_rows_def keep_def select_mask_self)
  then have "Category f = Some (replicate (length (ds f)) sel)"
    by (simp only: n)
  with cats(1) mem sel_eq ne wf show ?thesis by blast
qed

text \<open>The theorem at the sample per-category table and the option \<open>''Technology''\<close>.\<close>

theorem selectable_category_nonempty_witness:
  "wf_frame demo_category_forecast \<and>
   categories demo_category_forecast = Inr [''All Categories'', ''Office Supplies'', ''Technology''] \<and>
   ''Technology'' \<in> set [''All Categories'', ''Office Supplies'', ''Technology''] \<and>
   ''Technology'' \<noteq> ''All Categories'' \<and>
   (\<exists>cats f. Category demo_category_forecast = Some cats \<and> ''Technology'' \<in> set cats \<and>
      selectSeries ''Technology'' demo_forecast demo_category_forecast = Inr f \<and> ds f \<noteq> [] \<and>
      wf_frame f \<and> Category f = Some (replicate (length (ds f)) ''Technology''))"
proof -
  have h2: "categories demo_category_forecast =
      Inr [''All Categories'', ''Office Supplies'', ''Technology'']"
    by (simp add: categories_def getcol_def demo_category_forecast_def unique_def)
  have h3: "''Technology'' \<in> set [''All Categories'', ''Office Supplies'', ''Technology'']"
    by simp
  have h4: "''Technology'' \<noteq> ''All Categories''" by simp
  from selectable_category_nonempty[OF wf_demo_category_forecast h2 h3 h4, of demo_forecast]
    wf_demo_category_forecast h2 h3 h4
  show ?thesis by blast
qed

subsection \<open>The growth adjustment\<close>

text \<open>
  Claim C3. For each of the four scenario rates and every well-formed table \<open>S\<close>, the
  adjustment leaves the timestamps as they are, gives three adjusted columns as long as
  \<open>S\<close>, and at every row where \<open>yhat_lower \<le> yhat \<le> yhat_upper\<close> holds the adjusted
  values are ordered the same way.
\<close>

theorem applyGrowth_preserves_shape_and_bounds:
  assumes "g \<in> snd ` set scenario_map" and "wf_frame S"
  shows "\<exists>a lo up. adjusted_columns (applyGrowth g S) = Inr (a, lo, up) \<and>
           ds (applyGrowth g S) = ds S \<and>
           length a = length (ds S) \<and> length lo = length (ds S) \<and>
           length up = length (ds S) \<and>
           (\<forall>i<length (ds S).
              yhat_lower S ! i \<le> yhat S ! i \<and> yhat S ! i \<le> yhat_upper S ! i \<longrightarrow>
              lo ! i \<le> a ! i \<and> a ! i \<le> up ! i)"
proof -
  from assms(1) have "0 \<le> 1 + g" unfolding scenario_rates by auto
  then show ?thesis using assms(2)
    by (simp add: adjusted_columns_def applyGrowth_def getcol_def wf_frame_def Let_def
        mult_right_mono)
qed

text \<open>The theorem at the aggressive rate and the sample aggregate table.\<close>

theorem applyGrowth_preserves_shape_and_bounds_witness:
  "(0.20 :: real) \<in> snd ` set scenario_map \<and> wf_frame demo_forecast \<and>
   (\<exists>a lo up. adjusted_columns (applyGrowth 0.20 demo_forecast) = Inr (a, lo, up) \<and>
      ds (applyGrowth 0.20 demo_forecast) = ds demo_forecast \<and>
      length a = length (ds demo_forecast) \<and> length lo = length (ds demo_forecast) \<and>
      length up = length (ds demo_forecast) \<and>
      (\<forall>i<length (ds demo_forecast).
         yhat_lower demo_forecast ! i \<le> yhat demo_forecast ! i \<and>
         yhat demo_forecast ! i \<le> yhat_upper demo_forecast ! i \<longrightarrow>
         lo ! i \<le> a ! i \<and> a ! i \<le> up ! i))"
proof -
  have h: "(0.20 :: real) \<in> snd ` set scenario_map" by (simp add: scenario_map_def)
  from applyGrowth_preserves_shape_and_bounds[OF h wf_demo_forecast] h wf_demo_forecast
  show ?thesis by blast
qed

text \<open>
  Claim C6. Under the baseline scenario the rate is 0, and the adjusted columns are the
  original \<open>yhat\<close>, \<open>yhat_lower\<close> and \<open>yhat_upper\<close> columns, with the timestamps and
  the original columns untouched.
\<close>

theorem applyGrowth_baseline_identity:
  "growth_of ''Baseline (0%)'' = Inr 0 \<and>
   adjusted_columns (applyGrowth 0 S) = Inr (yhat S, yhat_lower S, yhat_upper S) \<and>
   ds (applyGrowth 0 S) = ds S \<and> yhat (applyGrowth 0 S) = yhat S \<and>
   yhat_lower (applyGrowth 0 S) = yhat_lower S \<and> yhat_upper (applyGrowth 0 S) = yhat_upper S"
  by (simp add: growth_of_def scenario_map_def adjusted_columns_def applyGrowth_def getcol_def)

subsection \<open>The six-month KPI\<close>

text \<open>
  Claim C4. The KPI is the sum of the adjusted point estimates of the last six rows of
  \<open>S\<close> (of all rows when there are fewer), for every rate. For a table of twelve rows
  whose last six point estimates are 100, the aggressive scenario gives exactly 720.
\<close>

theorem summarize_tail_of_adjusted:
  "summarize (tailWindow (applyGrowth g S) 6) =
     Inr (sum_list (map (\<lambda>y. y * (1 + g)) (drop (length (yhat S) - 6) (yhat S)))) \<and>
   (length (yhat S) = 12 \<and> (\<forall>i. 6 \<le> i \<and> i < 12 \<longrightarrow> yhat S ! i = 100) \<longrightarrow>
      growth_of ''Aggressive (+20%)'' = Inr 0.20 \<and>
      summarize (tailWindow (applyGrowth 0.20 S) 6) = Inr 720)"
proof -
  have general: "summarize (tailWindow (applyGrowth r S) 6) =
     Inr (sum_list (map (\<lambda>y. y * (1 + r)) (drop (length (yhat S) - 6) (yhat S))))" for r
    by (simp add: summarize_def tailWindow_def tail_def applyGrowth_def getcol_def tail_list_map)
       (simp add: tail_list_def)
  have example: "summarize (tailWindow (applyGrowth 0.20 S) 6) = Inr 720"
    if len: "length (yhat S) = 12" and last: "\<forall>i. 6 \<le> i \<and> i < 12 \<longrightarrow> yhat S ! i = 100"
  proof -
    have "drop 6 (yhat S) = replicate 6 100"
    proof (rule nth_equalityI)
      show "length (drop 6 (yhat S)) = length (replicate 6 (100::real))" using len by simp
    next
      fix i assume "i < length (drop 6 (yhat S))"
      then have i: "i < 6" using len by simp
      then have "drop 6 (yhat S) ! i = yhat S ! (6 + i)" using len by simp
      also have "\<dots> = 100" using last i by simp
      finally show "drop 6 (yhat S) ! i = replicate 6 100 ! i" using i by simp
    qed
    then show ?thesis
      by (simp add: general len sum_list_replicate)
  qed
  have "growth_of ''Aggressive (+20%)'' = Inr 0.20"
    by (simp add: growth_of_def scenario_map_def)
  with general example show ?thesis by blast
qed

text \<open>
  The theorem at the sample aggregate table, whose last six point estimates are 100; the
  page shows the same number as its six-month metric.
\<close>

theorem summarize_tail_of_adjusted_witness:
  "length (yhat demo_forecast) = 12 \<and>
   yhat demo_forecast ! 6 = 100 \<and> yhat demo_forecast ! 7 = 100 \<and>
   yhat demo_forecast ! 8 = 100 \<and> yhat demo_forecast ! 9 = 100 \<and>
   yhat demo_forecast ! 10 = 100 \<and> yhat demo_forecast ! 11 = 100 \<and>
   growth_of ''Aggressive (+20%)'' = Inr 0.20 \<and>
   summarize (tailWindow (applyGrowth 0.20 demo_forecast) 6) = Inr 720 \<and>
   St_metric ''Next 6 Months Forecast'' (Number 720)
     \<in> set (fst (mainpage (Inr demo_state) (demo_session ''All Categories'' ''Aggressive (+20%)'')))"
proof -
  have h1: "length (yhat demo_forecast) = 12" by (simp add: demo_forecast_def)
  have page: "St_metric ''Next 6 Months Forecast'' (Number 720)
     \<in> set (fst (mainpage (Inr demo_state) (demo_session ''All Categories'' ''Aggressive (+20%)'')))"
    by (simp add: run_defs demo_defs)
  have h2: "\<forall>i. 6 \<le> i \<and> i < 12 \<longrightarrow> yhat demo_forecast ! i = 100"
  proof (intro allI impI)
    fix i :: nat assume "6 \<le> i \<and> i < 12"
    then have "i \<in> {6, 7, 8, 9, 10, 11}" by auto
    then show "yhat demo_forecast ! i = 100" by (auto simp: demo_forecast_def)
  qed
  have h3: "yhat demo_forecast ! 6 = 100 \<and> yhat demo_forecast ! 7 = 100 \<and>
     yhat demo_forecast ! 8 = 100 \<and> yhat demo_forecast ! 9 = 100 \<and>
     yhat demo_forecast ! 10 = 100 \<and> yhat demo_forecast ! 11 = 100"
    by (simp add: demo_forecast_def)
  from summarize_tail_of_adjusted[of "0.20" demo_forecast] h1 h2
  have "growth_of ''Aggressive (+20%)'' = Inr 0.20 \<and>
     summarize (tailWindow (applyGrowth 0.20 demo_forecast) 6) = Inr 720"
    by blast
  with h1 h3 page show ?thesis by blast
qed

text \<open>
  Claim C2, as the code has it. \<^verbatim>\<open>tail\<close> on a well-formed table with fewer than \<open>n\<close>
  rows returns the table as it is, and nothing more: the messages of a run that ends
  without an exception are the download toasts and the insight of the scenario the
  select box holds, however many rows the forecast has.
\<close>

theorem tailWindow_short_returns_all:
  "(wf_frame S \<and> length (ds S) < n \<longrightarrow> tailWindow S n = S) \<and>
   (mainpage_body ms forecast_all category_forecast er ss h0 = (out, None, h) \<longrightarrow>
      (\<exists>g. growth_of (selectbox (map fst scenario_map) 1 (selected_scenario ss)) = Inr g \<and>
         filter is_message out =
           (if scenerio_clicked ss then [St_toast ''Download Started''] else []) @
           (if forecast_clicked ss then [St_toast ''Download Started''] else []) @
           [business_insight g]))"
proof -
  have "tailWindow S n = S" if "wf_frame S" and "length (ds S) < n"
    using that
    by (cases S)
       (auto simp: tailWindow_def tail_def wf_frame_def Let_def column_ok_def tail_list_short
          split: option.splits)
  with mainpage_body_messages show ?thesis by blast
qed

text \<open>
  The theorem at the sample per-category table, which has four rows, and at a run of the
  page for the category \<open>''Technology''\<close> under the baseline scenario.
\<close>

theorem tailWindow_short_returns_all_witness:
  "wf_frame demo_category_forecast \<and> length (ds demo_category_forecast) < 6 \<and>
   tailWindow demo_category_forecast 6 = demo_category_forecast \<and>
   (\<exists>out h.
      mainpage_body demo_sales 0 1 demo_errors (demo_session ''Technology'' ''Baseline (0%)'')
        [demo_forecast, demo_category_forecast] = (out, None, h) \<and>
      filter is_message out = [business_insight 0])"
proof -
  let ?ss = "demo_session ''Technology'' ''Baseline (0%)''"
  let ?run = "mainpage_body demo_sales 0 1 demo_errors ?ss [demo_forecast, demo_category_forecast]"
  have short: "length (ds demo_category_forecast) < 6"
    by (simp add: demo_category_forecast_def)
  have "fst (snd ?run) = None"
    by (simp add: run_defs demo_defs)
  then obtain out h where run: "?run = (out, None, h)"
    by (metis prod.collapse)
  have g: "growth_of (selectbox (map fst scenario_map) 1 (selected_scenario ?ss)) = Inr 0"
    by (simp add: growth_of_def selectbox_def scenario_map_def demo_session_def)
  have clicks: "\<not> scenerio_clicked ?ss" "\<not> forecast_clicked ?ss"
    by (simp_all add: demo_session_def)
  from tailWindow_short_returns_all[of demo_category_forecast 6 demo_sales 0 1 demo_errors ?ss
      "[demo_forecast, demo_category_forecast]" out h]
    wf_demo_category_forecast short run g clicks
  have "tailWindow demo_category_forecast 6 = demo_category_forecast"
    and "filter is_message out = [business_insight 0]"
    by auto
  with wf_demo_category_forecast short run show ?thesis by blast
qed

text \<open>
  Claim C2 as stated fails on the flag. For the category \<open>''Technology''\<close>, which has
  two forecast rows, the run ends without an exception, the table of the next six months
  shows the two rows, and the only message is the insight of the baseline scenario: nothing
  tells of the shortfall.
\<close>

theorem tailWindow_short_no_flag_counterexample:
  "fst (snd (mainpage (Inr demo_state) (demo_session ''Technology'' ''Baseline (0%)''))) = None \<and>
   St_dataframe \<lparr> Month = [1, 2], Forecast = [40, 50], Lower_Bound = [35, 45],
                   Upper_Bound = [45, 55] \<rparr>
     \<in> set (fst (mainpage (Inr demo_state) (demo_session ''Technology'' ''Baseline (0%)''))) \<and>
   filter is_message (fst (mainpage (Inr demo_state) (demo_session ''Technology'' ''Baseline (0%)''))) =
     [St_info ''Baseline scenario selected. Maintain current strategy.'']"
  by (simp add: run_defs demo_defs)

subsection \<open>The best model\<close>

text \<open>
  Claim C5. For a non-empty error table whose model names are distinct, the best model is
  the row at the first position that holds the smallest MAE, paired with that MAE: no row
  has a smaller MAE and every earlier row has a strictly larger one. For the MAE values
  A: 5.0, B: 3.0, C: 3.0 it is B with 3.0.
\<close>

theorem bestModel_first_minimum:
  assumes "t \<noteq> []" and "distinct (map fst t)"
  shows "(\<exists>i<length t. bestModel t = Inr (fst (t ! i), Scalar (MAE (snd (t ! i)))) \<and>
            (\<forall>j<length t. MAE (snd (t ! i)) \<le> MAE (snd (t ! j))) \<and>
            (\<forall>j<i. MAE (snd (t ! i)) < MAE (snd (t ! j)))) \<and>
         bestModel demo_errors = Inr (''B'', Scalar 3.0)"
proof -
  define s where "s = map (\<lambda>row. (fst row, MAE (snd row))) t"
  from assms(1) obtain p ps where s: "s = p # ps" unfolding s_def by (cases t) auto
  from first_min_spec[of p ps] obtain i where i: "is_first_min s i" "first_min p ps = s ! i"
    unfolding s by blast
  have ls: "length s = length t" by (simp add: s_def)
  have it: "i < length t" using i(1) by (simp add: is_first_min_def ls)
  have nth: "s ! j = (fst (t ! j), MAE (snd (t ! j)))" if "j < length t" for j
    using that by (simp add: s_def)
  have "idxmin s = Inr (fst (t ! i))"
    using i(2) nth[OF it] by (simp add: idxmin_def s)
  moreover have "loc t (fst (t ! i)) MAE = Inr (Scalar (MAE (snd (t ! i))))"
    by (simp add: loc_def filter_label_distinct[OF assms(2) it])
  ultimately have best: "bestModel t = Inr (fst (t ! i), Scalar (MAE (snd (t ! i))))"
    by (simp add: bestModel_def s_def)
  have least: "\<forall>j<length t. MAE (snd (t ! i)) \<le> MAE (snd (t ! j))"
  proof (intro allI impI)
    fix j assume j: "j < length t"
    then have "snd (s ! i) \<le> snd (s ! j)" using i(1) by (simp add: is_first_min_def ls)
    then show "MAE (snd (t ! i)) \<le> MAE (snd (t ! j))" by (simp add: nth[OF it] nth[OF j])
  qed
  have first: "\<forall>j<i. MAE (snd (t ! i)) < MAE (snd (t ! j))"
  proof (intro allI impI)
    fix j assume j: "j < i"
    then have jt: "j < length t" using it by simp
    from j have "snd (s ! i) < snd (s ! j)" using i(1) by (simp add: is_first_min_def)
    then show "MAE (snd (t ! i)) < MAE (snd (t ! j))" by (simp add: nth[OF it] nth[OF jt])
  qed
  have "bestModel demo_errors = Inr (''B'', Scalar 3.0)"
    by (simp add: bestModel_def idxmin_def loc_def demo_errors_def)
  with best least first it show ?thesis by blast
qed

text \<open>The theorem at the table A: 5.0, B: 3.0, C: 3.0: the first minimum is at position 1.\<close>

theorem bestModel_first_minimum_witness:
  "demo_errors \<noteq> [] \<and> distinct (map fst demo_errors) \<and>
   (\<exists>i<length demo_errors.
      bestModel demo_errors = Inr (fst (demo_errors ! i), Scalar (MAE (snd (demo_errors ! i)))) \<and>
      (\<forall>j<length demo_errors. MAE (snd (demo_errors ! i)) \<le> MAE (snd (demo_errors ! j))) \<and>
      (\<forall>j<i. MAE (snd (demo_errors ! i)) < MAE (snd (demo_errors ! j)))) \<and>
   bestModel demo_errors = Inr (''B'', Scalar 3.0)"
proof -
  have h1: "demo_errors \<noteq> []" by (simp add: demo_errors_def)
  have h2: "distinct (map fst demo_errors)" by (simp add: demo_errors_def)
  from bestModel_first_minimum[OF h1 h2] h1 h2 show ?thesis by blast
qed

subsection \<open>A state that cannot be loaded\<close>

text \<open>
  Claim C7, as the code has it. When loading raises, on either page, the run shows one
  error message and stops: nothing else is shown, no exception escapes and no table is
  touched. The message is the setup instruction when the file is absent; for any other
  exception it is the text \<open>Errors encountered while starting project: \<close> followed by
  the exception's own text.
\<close>

theorem load_failure_is_fatal:
  "(load_mainpage file = Inl e \<longrightarrow>
      mainpage file ss = ([St_error (failure_message e)], None, [])) \<and>
   (load_comparison file = Inl e \<longrightarrow>
      comparison_start file = ([St_error (failure_message e)], None)) \<and>
   load_mainpage (Inl e) = Inl e \<and> load_comparison (Inl e) = Inl e \<and>
   failure_message FileNotFoundError = setup_instruction \<and>
   (e \<noteq> FileNotFoundError \<longrightarrow>
      failure_message e = ''Errors encountered while starting project: '' @ str_exn e)"
  by (cases e)
     (simp_all add: mainpage_def comparison_start_def load_mainpage_def load_comparison_def
        failure_message_def)

text \<open>The theorem at a file that cannot be unpickled and at an absent file.\<close>

theorem load_failure_is_fatal_witness:
  "load_mainpage (Inl (OtherException ''pickle data was truncated'')) =
     Inl (OtherException ''pickle data was truncated'') \<and>
   load_comparison (Inl (OtherException ''pickle data was truncated'')) =
     Inl (OtherException ''pickle data was truncated'') \<and>
   OtherException ''pickle data was truncated'' \<noteq> FileNotFoundError \<and>
   mainpage (Inl (OtherException ''pickle data was truncated''))
       (demo_session ''All Categories'' ''Baseline (0%)'') =
     ([St_error ''Errors encountered while starting project: pickle data was truncated''], None, []) \<and>
   comparison_start (Inl (OtherException ''pickle data was truncated'')) =
     ([St_error ''Errors encountered while starting project: pickle data was truncated''], None)"
proof -
  let ?e = "OtherException ''pickle data was truncated''"
  let ?ss = "demo_session ''All Categories'' ''Baseline (0%)''"
  have ne: "?e \<noteq> FileNotFoundError" by simp
  from load_failure_is_fatal[of "Inl ?e" ?e ?ss] ne
  show ?thesis by simp
qed

text \<open>
  Claim C7 as stated fails on the message. For a file that cannot be unpickled the page
  shows the exception's text, which is not the setup instruction.
\<close>

theorem load_failure_message_counterexample:
  "fst (mainpage (Inl (OtherException ''pickle data was truncated''))
          (demo_session ''All Categories'' ''Baseline (0%)'')) =
     [St_error ''Errors encountered while starting project: pickle data was truncated''] \<and>
   fst (mainpage (Inl (OtherException ''pickle data was truncated''))
          (demo_session ''All Categories'' ''Baseline (0%)'')) \<noteq>
     [St_error setup_instruction]"
  by (simp add: mainpage_def load_mainpage_def failure_message_def setup_instruction_def)

subsection \<open>The loaded tables are left as they are\<close>

text \<open>
  Claim C10. A run of the main page, whatever the category and the scenario and however
  it ends, leaves the two loaded forecast tables as they were: the adjusted columns are
  written to the copy that \<^verbatim>\<open>forecast\<close> refers to. This holds from any heap in which
  the two tables live, and so for the heap of a whole run, where they are the objects 0
  and 1.
\<close>

theorem base_tables_unchanged:
  "(forecast_all < length h0 \<and> category_forecast < length h0 \<and>
    mainpage_body ms forecast_all category_forecast er ss h0 = (out, raised, h) \<longrightarrow>
      h ! forecast_all = h0 ! forecast_all \<and> h ! category_forecast = h0 ! category_forecast) \<and>
   (load_mainpage file = Inr (ms, fa, cf, er) \<and> mainpage file ss = (out', raised', h') \<longrightarrow>
      h' ! 0 = fa \<and> h' ! 1 = cf)"
proof -
  have body: "k ! r = k0 ! r"
    if "r < length k0" and "mainpage_body ms a b er ss k0 = (o1, r1, k)" for r a b k0 k o1 r1
  proof -
    from mainpage_body_heap[OF that(2)] have "take (length k0) k = k0" .
    then have "k0 ! r = take (length k0) k ! r" by simp
    also have "\<dots> = k ! r" using that(1) by simp
    finally show ?thesis by simp
  qed
  have whole: "h' ! 0 = fa \<and> h' ! 1 = cf"
    if l: "load_mainpage file = Inr (ms, fa, cf, er)" and m: "mainpage file ss = (out', raised', h')"
  proof -
    from l m have run: "mainpage_body ms 0 1 er ss [fa, cf] = (out', raised', h')"
      by (simp add: mainpage_def)
    from body[OF _ run, of 0] body[OF _ run, of 1] show ?thesis by simp
  qed
  from body whole show ?thesis by blast
qed

text \<open>
  The theorem at a run on the sample state for \<open>''Technology''\<close> under the aggressive
  scenario: the adjusted estimates are in the working copy, object 2, and the loaded
  tables are as before.
\<close>

theorem base_tables_unchanged_witness:
  "load_mainpage (Inr demo_state) =
     Inr (demo_sales, demo_forecast, demo_category_forecast, demo_errors) \<and>
   (\<exists>out raised h.
      mainpage (Inr demo_state) (demo_session ''Technology'' ''Aggressive (+20%)'') =
        (out, raised, h) \<and>
      h ! 0 = demo_forecast \<and> h ! 1 = demo_category_forecast \<and>
      yhat_adj (h ! 2) = Some [48, 60])"
proof -
  let ?ss = "demo_session ''Technology'' ''Aggressive (+20%)''"
  have l: "load_mainpage (Inr demo_state) =
     Inr (demo_sales, demo_forecast, demo_category_forecast, demo_errors)"
    by (simp add: load_mainpage_def demo_state_def)
  obtain out raised h where run: "mainpage (Inr demo_state) ?ss = (out, raised, h)"
    by (rule prod_cases3)
  have "yhat_adj (snd (snd (mainpage (Inr demo_state) ?ss)) ! 2) = Some [48, 60]"
    by (simp add: run_defs demo_defs)
  then have adj: "yhat_adj (h ! 2) = Some [48, 60]" by (simp add: run)
  from base_tables_unchanged[of _ _ _ demo_sales demo_errors ?ss _ _ _ "Inr demo_state"
      demo_forecast demo_category_forecast out raised h] l run
  have "h ! 0 = demo_forecast \<and> h ! 1 = demo_category_forecast" by blast
  with l run adj show ?thesis by blast
qed

end
